theory Spec2Isabelle
  imports Complex_Main
begin

section \<open>The physics world as the programs build it\<close>

text \<open>
  Both programs (\<^verbatim>\<open>marble_counter.py\<close>, four bits, and \<^verbatim>\<open>single_counter.py\<close>, one bit)
  configure a pymunk space and then run a fixed-step loop. The space is modelled as the
  lists of bodies, shapes and constraints that \<^verbatim>\<open>space.add\<close> has received, in the order
  of the calls. A Python body object is a position in the list of bodies, so that an
  assignment to \<^verbatim>\<open>body.angle\<close> or \<^verbatim>\<open>body.position\<close> made after \<^verbatim>\<open>space.add\<close> is an
  update of the space. Python floats are read as real numbers.
\<close>

type_synonym vec = "real \<times> real"

datatype body_type = DYNAMIC | KINEMATIC | STATIC

record body =
  body_type :: body_type
  mass :: real
  moment :: real
  position :: vec
  angle :: real
  center_of_gravity :: vec

datatype body_ref = StaticBody | BodyRef nat

datatype geometry = Segment vec vec real | Poly "vec list" | Circle real

record shape =
  shape_body :: body_ref
  geometry :: geometry
  elasticity :: real
  friction :: real

datatype joint =
  PivotJoint body_ref body_ref vec
| RotaryLimitJoint body_ref body_ref real real

record space =
  gravity :: vec
  bodies :: "body list"
  shapes :: "shape list"
  constraints :: "joint list"

text \<open>
  The library functions whose results the programs only pass on are parameters: the three
  moment formulas, and \<open>solve\<close>, the position and angle that one \<^verbatim>\<open>space.step\<close> gives
  the dynamic body at an index.
\<close>

record engine =
  moment_for_segment :: "real \<Rightarrow> vec \<Rightarrow> vec \<Rightarrow> real \<Rightarrow> real"
  moment_for_poly :: "real \<Rightarrow> vec list \<Rightarrow> real"
  moment_for_circle :: "real \<Rightarrow> real \<Rightarrow> real \<Rightarrow> real"
  solve :: "space \<Rightarrow> real \<Rightarrow> nat \<Rightarrow> vec \<times> real"

definition radians :: "real \<Rightarrow> real" where
  "radians x = x * pi / 180"

definition degrees :: "real \<Rightarrow> real" where
  "degrees x = x * 180 / pi"

definition new_body :: "real \<Rightarrow> real \<Rightarrow> body_type \<Rightarrow> body" where
  "new_body m i t =
     \<lparr>body_type = t, mass = m, moment = i, position = (0, 0), angle = 0,
      center_of_gravity = (0, 0)\<rparr>"

definition new_shape :: "body_ref \<Rightarrow> geometry \<Rightarrow> shape" where
  "new_shape b g = \<lparr>shape_body = b, geometry = g, elasticity = 0, friction = 0\<rparr>"

definition add_body :: "body \<Rightarrow> space \<Rightarrow> space" where
  "add_body b sp = sp\<lparr>bodies := bodies sp @ [b]\<rparr>"

definition add_shape :: "shape \<Rightarrow> space \<Rightarrow> space" where
  "add_shape s sp = sp\<lparr>shapes := shapes sp @ [s]\<rparr>"

definition add_constraint :: "joint \<Rightarrow> space \<Rightarrow> space" where
  "add_constraint j sp = sp\<lparr>constraints := constraints sp @ [j]\<rparr>"

definition set_position :: "nat \<Rightarrow> vec \<Rightarrow> space \<Rightarrow> space" where
  "set_position i p sp = sp\<lparr>bodies := (bodies sp)[i := (bodies sp ! i)\<lparr>position := p\<rparr>]\<rparr>"

definition set_angle :: "nat \<Rightarrow> real \<Rightarrow> space \<Rightarrow> space" where
  "set_angle i a sp = sp\<lparr>bodies := (bodies sp)[i := (bodies sp ! i)\<lparr>angle := a\<rparr>]\<rparr>"

text \<open>
  \<^verbatim>\<open>space.step(dt)\<close>: the engine moves the dynamic bodies. A static body never moves and
  a kinematic body moves by its velocity, which neither program ever sets. No body, shape
  or constraint is added or removed by a step (the programs register no callback).
\<close>

definition space_step :: "engine \<Rightarrow> real \<Rightarrow> space \<Rightarrow> space" where
  "space_step E dt sp =
     sp\<lparr>bodies :=
          map (\<lambda>i. let b = bodies sp ! i
                   in if body_type b = DYNAMIC
                      then b\<lparr>position := fst (solve E sp dt i), angle := snd (solve E sp dt i)\<rparr>
                      else b)
              [0..<length (bodies sp)]\<rparr>"

subsection \<open>Functions that the two files share word for word\<close>

definition GRAVITY :: real where
  "GRAVITY = 900"

definition FPS :: real where
  "FPS = 60"

definition create_space :: space where
  "create_space = \<lparr>gravity = (0, GRAVITY), bodies = [], shapes = [], constraints = []\<rparr>"

definition create_gate :: "engine \<Rightarrow> vec \<Rightarrow> space \<Rightarrow> space \<times> nat" where
  "create_gate E pos sp =
     (let m = 1;
          mom = moment_for_segment E m (- 18, 0) (18, 0) 5;
          body = (new_body m mom KINEMATIC)\<lparr>position := pos\<rparr>;
          h = length (bodies sp);
          gate_shape = (new_shape (BodyRef h) (Segment (- 18, 0) (18, 0) 5))
                         \<lparr>elasticity := 0.5, friction := 0.5\<rparr>
      in (add_shape gate_shape (add_body body sp), h))"

definition h_bar_pts :: "vec list" where
  "h_bar_pts = [(- 50, - 3), (50, - 3), (50, 3), (- 50, 3)]"

definition v_bar_pts :: "vec list" where
  "v_bar_pts = [(- 3, 0), (3, 0), (3, - 65), (- 3, - 65)]"

definition tip_pts :: "vec list" where
  "tip_pts = [(- 15, - 65), (15, - 65), (0, - 85)]"

definition slope_l_pts :: "vec list" where
  "slope_l_pts = [(- 3, - 3), (- 20, - 3), (- 3, - 20)]"

definition slope_r_pts :: "vec list" where
  "slope_r_pts = [(3, - 3), (20, - 3), (3, - 20)]"

definition mechanism_polys :: "vec list list" where
  "mechanism_polys = [h_bar_pts, v_bar_pts, tip_pts, slope_l_pts, slope_r_pts]"

definition create_counter_mechanism :: "engine \<Rightarrow> vec \<Rightarrow> space \<Rightarrow> space \<times> nat" where
  "create_counter_mechanism E pos sp =
     (let m = 2;
          mom = moment_for_poly E m h_bar_pts + moment_for_poly E m v_bar_pts
                + moment_for_poly E m tip_pts;
          body = (new_body m mom DYNAMIC)\<lparr>position := pos, center_of_gravity := (0, - 20)\<rparr>;
          h = length (bodies sp);
          polys = map (\<lambda>pts. (new_shape (BodyRef h) (Poly pts))
                                \<lparr>elasticity := 0.1, friction := 0.3\<rparr>) mechanism_polys;
          sp1 = fold add_shape polys (add_body body sp);
          pivot = PivotJoint StaticBody (BodyRef h) pos;
          sp2 = add_constraint pivot sp1;
          limit = RotaryLimitJoint StaticBody (BodyRef h) (- radians 35) (radians 35);
          sp3 = add_constraint limit sp2
      in (sp3, h))"

definition marble_radius :: real where
  "marble_radius = 12"

definition spawn_marble :: "engine \<Rightarrow> vec \<Rightarrow> space \<Rightarrow> space \<times> nat" where
  "spawn_marble E pos sp =
     (let m = 12;
          radius = marble_radius;
          mom = moment_for_circle E m 0 radius;
          body = (new_body m mom DYNAMIC)\<lparr>position := pos\<rparr>;
          h = length (bodies sp);
          shape = (new_shape (BodyRef h) (Circle radius))\<lparr>elasticity := 0.1, friction := 0.5\<rparr>
      in (add_shape shape (add_body body sp), h))"

section \<open>The run loop\<close>

text \<open>
  The local variables of \<^verbatim>\<open>main\<close> that the loop reads or writes. \<^verbatim>\<open>single_counter.py\<close>
  holds its one mechanism in \<^verbatim>\<open>counter_body\<close>; here it is the one element of
  \<open>mechanisms\<close>.
\<close>

record sim =
  world :: space
  gate_body :: nat
  gate_closed_pos :: vec
  gate_open_pos :: vec
  mechanisms :: "nat list"
  marbles :: "nat list"
  gate_timer :: int
  total_marbles_launched :: int
  running :: bool

datatype key = K_SPACE | K_OTHER nat

datatype event = QUIT | KEYDOWN key | OTHER_EVENT nat

fun handle_event :: "event \<Rightarrow> sim \<Rightarrow> sim" where
  "handle_event QUIT s = s\<lparr>running := False\<rparr>"
| "handle_event (KEYDOWN k) s =
     (if k = K_SPACE
      then s\<lparr>world := set_position (gate_body s) (gate_open_pos s) (world s),
             gate_timer := 15,
             total_marbles_launched := total_marbles_launched s + 1\<rparr>
      else s)"
| "handle_event (OTHER_EVENT n) s = s"

definition gate_tick :: "sim \<Rightarrow> sim" where
  "gate_tick s =
     (if gate_timer s > 0
      then (let s1 = s\<lparr>gate_timer := gate_timer s - 1\<rparr>
            in if gate_timer s1 = 0
               then s1\<lparr>world := set_position (gate_body s1) (gate_closed_pos s1) (world s1)\<rparr>
               else s1)
      else s)"

definition physics :: "engine \<Rightarrow> sim \<Rightarrow> sim" where
  "physics E s = s\<lparr>world := space_step E (1 / FPS) (world s)\<rparr>"

text \<open>One pass of the body of \<^verbatim>\<open>while running\<close>, given the events that
  \<^verbatim>\<open>pygame.event.get()\<close> returns in that pass.\<close>

definition frame :: "engine \<Rightarrow> event list \<Rightarrow> sim \<Rightarrow> sim" where
  "frame E evs s = physics E (gate_tick (fold handle_event evs s))"

text \<open>The loop over the passes for which events are given; it tests \<^verbatim>\<open>running\<close> before
  each pass.\<close>

fun run :: "engine \<Rightarrow> event list list \<Rightarrow> sim \<Rightarrow> sim" where
  "run E [] s = s"
| "run E (evs # rest) s = (if running s then run E rest (frame E evs s) else s)"

subsection \<open>Readout\<close>

text \<open>\<^verbatim>\<open>marble_counter.py\<close>: \<^verbatim>\<open>val = 1 if angle > 5 else 0\<close> and the loop that adds
  \<^verbatim>\<open>val * (2**i)\<close> to \<^verbatim>\<open>binary_val\<close>, over the angles (in radians) of the mechanisms.\<close>

definition val :: "real \<Rightarrow> int" where
  "val angle_deg = (if angle_deg > 5 then 1 else 0)"

fun readout_loop :: "nat \<Rightarrow> real list \<Rightarrow> int \<Rightarrow> int" where
  "readout_loop i [] binary_val = binary_val"
| "readout_loop i (a # as) binary_val =
     readout_loop (i + 1) as (binary_val + val (degrees a) * 2 ^ i)"

definition mechanism_angles :: "sim \<Rightarrow> real list" where
  "mechanism_angles s = map (\<lambda>m. angle (bodies (world s) ! m)) (mechanisms s)"

definition binary_val :: "sim \<Rightarrow> int" where
  "binary_val s = readout_loop 0 (mechanism_angles s) 0"

text \<open>\<^verbatim>\<open>single_counter.py\<close>:
  \<^verbatim>\<open>parity = "PAR" if angle > 5 else "IMPAR" if angle < -5 else "..."\<close>.\<close>

definition parity_of :: "real \<Rightarrow> string" where
  "parity_of angle_deg =
     (if angle_deg > 5 then ''PAR'' else if angle_deg < - 5 then ''IMPAR'' else ''...'')"

definition parity :: "sim \<Rightarrow> string" where
  "parity s = parity_of (degrees (angle (bodies (world s) ! hd (mechanisms s))))"

section \<open>The two programs\<close>

subsection \<open>\<^verbatim>\<open>marble_counter.py\<close>\<close>

definition mc_WIDTH :: int where
  "mc_WIDTH = 1000"

definition mc_HEIGHT :: int where
  "mc_HEIGHT = 1000"

definition mc_tube_x :: int where
  "mc_tube_x = mc_WIDTH - 200"

definition mc_tube_width :: int where
  "mc_tube_width = 32"

definition mc_tube_height :: int where
  "mc_tube_height = 100"

definition vec_of :: "int \<times> int \<Rightarrow> vec" where
  "vec_of p = (of_int (fst p), of_int (snd p))"

definition mc_create_boundaries :: "space \<Rightarrow> space \<times> int" where
  "mc_create_boundaries sp =
     (let floor = (new_shape StaticBody
                     (Segment (vec_of (0, mc_HEIGHT - 10)) (vec_of (mc_WIDTH, mc_HEIGHT - 10)) 10))
                    \<lparr>elasticity := 0.5, friction := 0.5\<rparr>;
          sp1 = add_shape floor sp;
          tube_x = mc_tube_x;
          tube_width = mc_tube_width;
          tube_height = mc_tube_height;
          wall_l = new_shape StaticBody
                     (Segment (vec_of (tube_x - tube_width div 2, 0))
                              (vec_of (tube_x - tube_width div 2, tube_height)) 4);
          wall_r = new_shape StaticBody
                     (Segment (vec_of (tube_x + tube_width div 2, 0))
                              (vec_of (tube_x + tube_width div 2, tube_height)) 4);
          sp2 = fold (\<lambda>s. add_shape (s\<lparr>elasticity := 0.5, friction := 0.2\<rparr>)) [wall_l, wall_r] sp1
      in (sp2, tube_x))"

definition create_catch_funnel :: "int \<Rightarrow> int \<Rightarrow> space \<Rightarrow> space" where
  "create_catch_funnel x y sp =
     (let w = 195;
          h = 50;
          gap = 40;
          l_slope = new_shape StaticBody
                      (Segment (vec_of (x - w div 2, y)) (vec_of (x - gap div 2, y + h)) 4);
          r_slope = new_shape StaticBody
                      (Segment (vec_of (x + w div 2 + 100, y - 60)) (vec_of (x + gap div 2, y + h)) 4)
      in fold (\<lambda>s. add_shape (s\<lparr>elasticity := 0.2, friction := 0.1\<rparr>)) [l_slope, r_slope] sp)"

definition bits_pos :: "(int \<times> int) list" where
  "bits_pos =
     [(mc_WIDTH - 180, 220), (mc_WIDTH - 430, 450), (mc_WIDTH - 680, 680), (mc_WIDTH - 930, 910)]"

text \<open>The loop \<^verbatim>\<open>for i, pos in enumerate(bits_pos)\<close>; the pair is the space and the list
  \<^verbatim>\<open>mechanisms\<close>.\<close>

fun place_mechanisms :: "engine \<Rightarrow> nat \<Rightarrow> (int \<times> int) list \<Rightarrow> space \<times> nat list \<Rightarrow> space \<times> nat list"
  where
  "place_mechanisms E i [] acc = acc"
| "place_mechanisms E i (pos # rest) (sp, ms) =
     (let (sp1, body) = create_counter_mechanism E (vec_of pos) sp;
          sp2 = set_angle body (- radians 35) sp1;
          sp3 = (if i > 0 then create_catch_funnel (fst pos) (snd pos - 140) sp2 else sp2)
      in place_mechanisms E (i + 1) rest (sp3, ms @ [body]))"

text \<open>The loop \<^verbatim>\<open>for i in range(n): marbles.append(spawn_marble(space, (x, 80 - i * 26)))\<close>,
  over the values of \<^verbatim>\<open>i\<close>; the pair is the space and the list \<^verbatim>\<open>marbles\<close>.\<close>

fun seed_marbles :: "engine \<Rightarrow> int \<Rightarrow> nat list \<Rightarrow> space \<times> nat list \<Rightarrow> space \<times> nat list" where
  "seed_marbles E x [] acc = acc"
| "seed_marbles E x (i # rest) (sp, ms) =
     (let (sp1, b) = spawn_marble E (vec_of (x, 80 - int i * 26)) sp
      in seed_marbles E x rest (sp1, ms @ [b]))"

text \<open>\<^verbatim>\<open>main\<close> up to \<^verbatim>\<open>running = True\<close>.\<close>

definition mc_init :: "engine \<Rightarrow> sim" where
  "mc_init E =
     (let (sp1, tube_x) = mc_create_boundaries create_space;
          closed_pos = vec_of (tube_x, 103);
          open_pos = vec_of (tube_x + 40, 103);
          (sp2, gate) = create_gate E closed_pos sp1;
          (sp3, mechs) = place_mechanisms E 0 bits_pos (sp2, []);
          (sp4, mbs) = seed_marbles E tube_x [0..<10] (sp3, [])
      in \<lparr>world = sp4, gate_body = gate, gate_closed_pos = closed_pos, gate_open_pos = open_pos,
          mechanisms = mechs, marbles = mbs, gate_timer = 0, total_marbles_launched = 0,
          running = True\<rparr>)"

definition mc_main :: "engine \<Rightarrow> event list list \<Rightarrow> sim" where
  "mc_main E fs = run E fs (mc_init E)"

subsection \<open>\<^verbatim>\<open>single_counter.py\<close>\<close>

definition sc_WIDTH :: int where
  "sc_WIDTH = 800"

definition sc_HEIGHT :: int where
  "sc_HEIGHT = 600"

definition sc_create_boundaries :: "space \<Rightarrow> space" where
  "sc_create_boundaries sp =
     (let floor = (new_shape StaticBody
                     (Segment (vec_of (0, sc_HEIGHT - 10)) (vec_of (sc_WIDTH, sc_HEIGHT - 10)) 10))
                    \<lparr>elasticity := 0.5, friction := 0.5\<rparr>;
          sp1 = add_shape floor sp;
          tube_width = 32;
          tube_height = 150;
          wall_l = new_shape StaticBody
                     (Segment (vec_of (sc_WIDTH div 2 - tube_width div 2, 0))
                              (vec_of (sc_WIDTH div 2 - tube_width div 2, tube_height)) 4);
          wall_r = new_shape StaticBody
                     (Segment (vec_of (sc_WIDTH div 2 + tube_width div 2, 0))
                              (vec_of (sc_WIDTH div 2 + tube_width div 2, tube_height)) 4)
      in fold (\<lambda>s. add_shape (s\<lparr>elasticity := 0.5, friction := 0.2\<rparr>)) [wall_l, wall_r] sp1)"

definition sc_init :: "engine \<Rightarrow> sim" where
  "sc_init E =
     (let sp1 = sc_create_boundaries create_space;
          closed_pos = vec_of (sc_WIDTH div 2, 110);
          open_pos = vec_of (sc_WIDTH div 2 + 40, 110);
          (sp2, gate) = create_gate E closed_pos sp1;
          m_pos = vec_of (sc_WIDTH div 2, sc_HEIGHT div 2 + 50);
          (sp3, counter_body) = create_counter_mechanism E m_pos sp2;
          sp4 = set_angle counter_body (- radians 35) sp3;
          (sp5, mbs) = seed_marbles E (sc_WIDTH div 2) [0..<5] (sp4, [])
      in \<lparr>world = sp5, gate_body = gate, gate_closed_pos = closed_pos, gate_open_pos = open_pos,
          mechanisms = [counter_body], marbles = mbs, gate_timer = 0,
          total_marbles_launched = 0, running = True\<rparr>)"

definition sc_main :: "engine \<Rightarrow> event list list \<Rightarrow> sim" where
  "sc_main E fs = run E fs (sc_init E)"

section \<open>Notions the properties are stated with\<close>

definition gate_position :: "sim \<Rightarrow> vec" where
  "gate_position s = position (bodies (world s) ! gate_body s)"

text \<open>A marble is a body that carries a circle; no other function of the programs makes a
  circle.\<close>

fun is_circle :: "geometry \<Rightarrow> bool" where
  "is_circle (Circle r) = True"
| "is_circle (Segment a b r) = False"
| "is_circle (Poly pts) = False"

definition is_marble :: "space \<Rightarrow> nat \<Rightarrow> bool" where
  "is_marble sp i = list_ex (\<lambda>s. shape_body s = BodyRef i \<and> is_circle (geometry s)) (shapes sp)"

definition marble_count :: "space \<Rightarrow> nat" where
  "marble_count sp = length (filter (is_marble sp) [0..<length (bodies sp)])"


fun is_limit_on :: "nat \<Rightarrow> joint \<Rightarrow> bool" where
  "is_limit_on i (RotaryLimitJoint a b lo hi) = (a = BodyRef i \<or> b = BodyRef i)"
| "is_limit_on i (PivotJoint a b p) = False"


definition limits_of :: "space \<Rightarrow> nat \<Rightarrow> joint list" where
  "limits_of sp i = filter (is_limit_on i) (constraints sp)"

text \<open>An engine that turns every dynamic body to \<open>f\<close> of its angle, within its limit joint
  if it has exactly one, and leaves positions alone.\<close>

fun clamp_to :: "joint list \<Rightarrow> real \<Rightarrow> real" where
  "clamp_to [RotaryLimitJoint a b lo hi] x = max lo (min hi x)"
| "clamp_to js x = x"

definition turning :: "(real \<Rightarrow> real) \<Rightarrow> engine" where
  "turning f =
     \<lparr>moment_for_segment = (\<lambda>m a b r. 0), moment_for_poly = (\<lambda>m pts. 0),
      moment_for_circle = (\<lambda>m inner outer. 0),
      solve = (\<lambda>sp dt i. (position (bodies sp ! i),
                           clamp_to (limits_of sp i) (f (angle (bodies sp ! i)))))\<rparr>"

text \<open>Geometry of a polygon given by its vertices: twice the signed area and the centroid
  (shoelace formulas), and the centroid of several polygons weighted by area.\<close>

definition cross :: "vec \<Rightarrow> vec \<Rightarrow> real" where
  "cross p q = fst p * snd q - fst q * snd p"

definition edges :: "vec list \<Rightarrow> (vec \<times> vec) list" where
  "edges pts = zip pts (tl pts @ [hd pts])"

definition area2 :: "vec list \<Rightarrow> real" where
  "area2 pts = (\<Sum>(p, q)\<leftarrow>edges pts. cross p q)"

definition centroid :: "vec list \<Rightarrow> vec" where
  "centroid pts =
     ((\<Sum>(p, q)\<leftarrow>edges pts. (fst p + fst q) * cross p q) / (3 * area2 pts),
      (\<Sum>(p, q)\<leftarrow>edges pts. (snd p + snd q) * cross p q) / (3 * area2 pts))"

definition compound_centroid :: "vec list list \<Rightarrow> vec" where
  "compound_centroid polys =
     ((\<Sum>pts\<leftarrow>polys. \<bar>area2 pts\<bar> * fst (centroid pts)) / (\<Sum>pts\<leftarrow>polys. \<bar>area2 pts\<bar>),
      (\<Sum>pts\<leftarrow>polys. \<bar>area2 pts\<bar> * snd (centroid pts)) / (\<Sum>pts\<leftarrow>polys. \<bar>area2 pts\<bar>))"

text \<open>\<open>below g p q\<close>: the point \<open>p\<close> is lower than \<open>q\<close>, that is, further along the
  gravity vector \<open>g\<close>.\<close>

definition below :: "vec \<Rightarrow> vec \<Rightarrow> vec \<Rightarrow> bool" where
  "below g p q = (fst g * (fst p - fst q) + snd g * (snd p - snd q) > 0)"

text \<open>A point of a body, given in the body's own frame, as the space sees it.\<close>

definition local_to_world :: "body \<Rightarrow> vec \<Rightarrow> vec" where
  "local_to_world b v =
     (fst (position b) + fst v * cos (angle b) - snd v * sin (angle b),
      snd (position b) + fst v * sin (angle b) + snd v * cos (angle b))"

text \<open>The inside of the input tube of \<^verbatim>\<open>marble_counter.py\<close>: between the two walls, over
  their height.\<close>

definition mc_in_tube :: "vec \<Rightarrow> bool" where
  "mc_in_tube p =
     (of_int (mc_tube_x - mc_tube_width div 2) < fst p
      \<and> fst p < of_int (mc_tube_x + mc_tube_width div 2)
      \<and> 0 \<le> snd p \<and> snd p \<le> of_int mc_tube_height)"

definition marble_positions :: "sim \<Rightarrow> vec list" where
  "marble_positions s = map (\<lambda>m. position (bodies (world s) ! m)) (marbles s)"

definition launch :: "sim \<Rightarrow> sim" where
  "launch s = handle_event (KEYDOWN K_SPACE) s"

definition launches :: "event list \<Rightarrow> nat" where
  "launches evs = length (filter (\<lambda>e. e = KEYDOWN K_SPACE) evs)"

text \<open>What no pass of the loop changes: the handles and gate positions held by \<^verbatim>\<open>main\<close>,
  and of the space everything but the positions and angles of its bodies.\<close>

definition layout ::
  "sim \<Rightarrow> (nat \<times> vec \<times> vec \<times> nat list \<times> nat list) \<times> (vec \<times> shape list \<times> joint list \<times> body_type list)"
  where
  "layout s =
     ((gate_body s, gate_closed_pos s, gate_open_pos s, mechanisms s, marbles s),
      (gravity (world s), shapes (world s), constraints (world s),
       map body_type (bodies (world s))))"

text \<open>The gate handle is a body of the space, and a kinematic one.\<close>

definition gate_wf :: "sim \<Rightarrow> bool" where
  "gate_wf s =
     (gate_body s < length (bodies (world s))
      \<and> body_type (bodies (world s) ! gate_body s) = KINEMATIC)"

text \<open>Two motions for \<open>turning\<close>: from a negative angle to the limit at +35 degrees and
  from there to level; and to level at once.\<close>

definition swing :: "real \<Rightarrow> real" where
  "swing a = (if a < 0 then radians 35 else 0)"

definition level :: "real \<Rightarrow> real" where
  "level a = 0"


text \<open>The bit value in the words of the specification, to compare \<open>val\<close> with: 1 if the
  angle (in degrees) is above +5, 0 if it is below -5, and undefined (\<open>None\<close>) in the band
  between.\<close>

definition spec_bit_value :: "real \<Rightarrow> int option" where
  "spec_bit_value angle_deg =
     (if angle_deg > 5 then Some 1 else if angle_deg < - 5 then Some 0 else None)"

text \<open>Every mechanism handle is a dynamic body of the space whose only limit joint ties
  it to the static body with the bounds \<open>lo\<close> and \<open>hi\<close>.\<close>

definition limited :: "real \<Rightarrow> real \<Rightarrow> sim \<Rightarrow> bool" where
  "limited lo hi s =
     list_all (\<lambda>m. m < length (bodies (world s))
                    \<and> body_type (bodies (world s) ! m) = DYNAMIC
                    \<and> limits_of (world s) m = [RotaryLimitJoint StaticBody (BodyRef m) lo hi])
              (mechanisms s)"

section \<open>What the operations of the loop change\<close>

lemma set_position_simps:
  "gravity (set_position i p sp) = gravity sp"
  "shapes (set_position i p sp) = shapes sp"
  "constraints (set_position i p sp) = constraints sp"
  "length (bodies (set_position i p sp)) = length (bodies sp)"
  by (simp_all add: set_position_def)

lemma set_position_types:
  "map body_type (bodies (set_position i p sp)) = map body_type (bodies sp)"
proof (cases "i < length (bodies sp)")
  case True
  then show ?thesis
    by (simp add: set_position_def map_update list_update_same_conv)
next
  case False
  then show ?thesis by (simp add: set_position_def list_update_beyond)
qed


lemma set_position_nth:
  "i < length (bodies sp) \<Longrightarrow> position (bodies (set_position i p sp) ! i) = p"
  by (simp add: set_position_def)

lemma set_position_idem:
  "set_position i p (set_position i p sp) = set_position i p sp"
  by (cases "i < length (bodies sp)") (simp_all add: set_position_def list_update_beyond)

lemma space_step_simps:
  "gravity (space_step E dt sp) = gravity sp"
  "shapes (space_step E dt sp) = shapes sp"
  "constraints (space_step E dt sp) = constraints sp"
  "length (bodies (space_step E dt sp)) = length (bodies sp)"
  by (simp_all add: space_step_def)

lemma space_step_nth:
  "i < length (bodies sp) \<Longrightarrow>
   bodies (space_step E dt sp) ! i =
     (if body_type (bodies sp ! i) = DYNAMIC
      then (bodies sp ! i)\<lparr>position := fst (solve E sp dt i), angle := snd (solve E sp dt i)\<rparr>
      else bodies sp ! i)"
  by (simp add: space_step_def Let_def)

lemma space_step_types:
  "map body_type (bodies (space_step E dt sp)) = map body_type (bodies sp)"
  by (rule nth_equalityI) (simp_all add: space_step_simps space_step_nth)

lemma layout_handle_event: "layout (handle_event e s) = layout s"
  by (cases e) (simp_all add: layout_def set_position_simps set_position_types)

lemma layout_events: "layout (fold handle_event evs s) = layout s"
  by (induction evs arbitrary: s) (simp_all add: layout_handle_event)

lemma layout_gate_tick: "layout (gate_tick s) = layout s"
  by (simp add: gate_tick_def layout_def Let_def set_position_simps set_position_types)

lemma layout_physics: "layout (physics E s) = layout s"
  by (simp add: physics_def layout_def space_step_simps space_step_types)

lemma layout_frame: "layout (frame E evs s) = layout s"
  by (simp add: frame_def layout_physics layout_gate_tick layout_events)

lemma layout_run: "layout (run E fs s) = layout s"
  by (induction fs arbitrary: s) (simp_all add: layout_frame)

lemma launches_Cons:
  "launches (e # evs) = (if e = KEYDOWN K_SPACE then 1 else 0) + launches evs"
  by (simp add: launches_def)

lemma handle_event_other:
  "e \<noteq> KEYDOWN K_SPACE \<Longrightarrow> handle_event e s = s\<lparr>running := running s \<and> e \<noteq> QUIT\<rparr>"
  by (cases e) auto

lemma events_timer:
  "gate_timer (fold handle_event evs s) = (if launches evs = 0 then gate_timer s else 15)"
proof (induction evs arbitrary: s)
  case Nil
  show ?case by (simp add: launches_def)
next
  case (Cons e evs)
  show ?case
  proof (cases "e = KEYDOWN K_SPACE")
    case True
    then show ?thesis by (simp add: Cons.IH launches_Cons)
  next
    case False
    then show ?thesis by (simp add: Cons.IH launches_Cons handle_event_other)
  qed
qed

lemma events_total:
  "total_marbles_launched (fold handle_event evs s)
   = total_marbles_launched s + int (launches evs)"
proof (induction evs arbitrary: s)
  case Nil
  show ?case by (simp add: launches_def)
next
  case (Cons e evs)
  show ?case
  proof (cases "e = KEYDOWN K_SPACE")
    case True
    then show ?thesis by (simp add: Cons.IH launches_Cons)
  next
    case False
    then show ?thesis by (simp add: Cons.IH launches_Cons handle_event_other)
  qed
qed

lemma events_world:
  "world (fold handle_event evs s)
   = (if launches evs = 0 then world s
      else set_position (gate_body s) (gate_open_pos s) (world s))"
proof (induction evs arbitrary: s)
  case Nil
  show ?case by (simp add: launches_def)
next
  case (Cons e evs)
  show ?case
  proof (cases "e = KEYDOWN K_SPACE")
    case True
    then show ?thesis by (simp add: Cons.IH launches_Cons set_position_idem)
  next
    case False
    then show ?thesis by (simp add: Cons.IH launches_Cons handle_event_other)
  qed
qed

lemma gate_wf_layout: "layout s' = layout s \<Longrightarrow> gate_wf s' = gate_wf s"
proof -
  assume l: "layout s' = layout s"
  then have g: "gate_body s' = gate_body s"
    and m: "map body_type (bodies (world s')) = map body_type (bodies (world s))"
    by (simp_all add: layout_def)
  from m have len: "length (bodies (world s')) = length (bodies (world s))"
    by (rule map_eq_imp_length_eq)
  show ?thesis
  proof (cases "gate_body s < length (bodies (world s))")
    case True
    with len have "body_type (bodies (world s') ! gate_body s)
                   = map body_type (bodies (world s')) ! gate_body s"
      by simp
    also have "\<dots> = body_type (bodies (world s) ! gate_body s)"
      using True by (simp add: m)
    finally show ?thesis by (simp add: gate_wf_def g len)
  next
    case False
    then show ?thesis by (simp add: gate_wf_def g len)
  qed
qed

lemma gate_position_launch: "gate_wf s \<Longrightarrow> gate_position (launch s) = gate_open_pos s"
  by (simp add: launch_def gate_position_def gate_wf_def set_position_nth)

lemma gate_position_tick:
  "gate_wf s \<Longrightarrow>
   gate_position (gate_tick s) = (if gate_timer s = 1 then gate_closed_pos s else gate_position s)"
  by (simp add: gate_tick_def gate_position_def gate_wf_def set_position_nth Let_def)

lemma gate_timer_tick:
  "gate_timer (gate_tick s) = (if gate_timer s > 0 then gate_timer s - 1 else gate_timer s)"
  by (simp add: gate_tick_def Let_def)

lemma gate_position_physics: "gate_wf s \<Longrightarrow> gate_position (physics E s) = gate_position s"
  by (simp add: physics_def gate_position_def gate_wf_def space_step_nth)

lemma frame_quiet:
  assumes "launches evs = 0"
  shows "gate_timer (frame E evs s) = (if gate_timer s > 0 then gate_timer s - 1 else gate_timer s)"
    and "gate_wf s \<Longrightarrow>
         gate_position (frame E evs s)
         = (if gate_timer s = 1 then gate_closed_pos s else gate_position s)"
proof -
  let ?s1 = "fold handle_event evs s"
  have t: "gate_timer ?s1 = gate_timer s" and w: "world ?s1 = world s"
    using assms by (simp_all add: events_timer events_world)
  have l: "layout ?s1 = layout s" by (rule layout_events)
  then have g: "gate_body ?s1 = gate_body s" and c: "gate_closed_pos ?s1 = gate_closed_pos s"
    by (simp_all add: layout_def)
  show "gate_timer (frame E evs s) = (if gate_timer s > 0 then gate_timer s - 1 else gate_timer s)"
    by (simp add: frame_def physics_def gate_timer_tick t)
  assume wf: "gate_wf s"
  with gate_wf_layout [OF l] have wf1: "gate_wf ?s1" by simp
  with gate_wf_layout [OF layout_gate_tick, of ?s1] have wf2: "gate_wf (gate_tick ?s1)"
    by simp
  have "gate_position (frame E evs s) = gate_position (gate_tick ?s1)"
    by (simp add: frame_def gate_position_physics [OF wf2])
  also have "\<dots> = (if gate_timer s = 1 then gate_closed_pos s else gate_position ?s1)"
    by (simp add: gate_position_tick [OF wf1] t c)
  also have "gate_position ?s1 = gate_position s"
    by (simp add: gate_position_def w g)
  finally show "gate_position (frame E evs s)
         = (if gate_timer s = 1 then gate_closed_pos s else gate_position s)" .
qed

lemma countdown:
  "gate_wf s \<Longrightarrow> list_all (\<lambda>evs. launches evs = 0) ks \<Longrightarrow> int (length ks) \<le> gate_timer s \<Longrightarrow>
   gate_timer (fold (frame E) ks s) = gate_timer s - int (length ks)
   \<and> gate_position (fold (frame E) ks s)
       = (if ks \<noteq> [] \<and> gate_timer s = int (length ks) then gate_closed_pos s
          else gate_position s)"
proof (induction ks arbitrary: s)
  case Nil
  show ?case by simp
next
  case (Cons evs ks)
  let ?s1 = "frame E evs s"
  from Cons.prems have q: "launches evs = 0" and qs: "list_all (\<lambda>evs. launches evs = 0) ks"
    and pos: "0 < gate_timer s" and le: "int (length ks) \<le> gate_timer s - 1"
    by simp_all
  have t1: "gate_timer ?s1 = gate_timer s - 1"
    using frame_quiet(1) [OF q] pos by simp
  have p1: "gate_position ?s1 = (if gate_timer s = 1 then gate_closed_pos s else gate_position s)"
    using frame_quiet(2) [OF q] Cons.prems(1) by simp
  have l1: "layout ?s1 = layout s" by (rule layout_frame)
  then have c1: "gate_closed_pos ?s1 = gate_closed_pos s"
    by (simp add: layout_def)
  from gate_wf_layout [OF l1] Cons.prems(1) have wf1: "gate_wf ?s1" by simp
  from le t1 have le1: "int (length ks) \<le> gate_timer ?s1" by simp
  note ih = Cons.IH [OF wf1 qs le1]
  show ?case
  proof (cases "ks = []")
    case True
    then show ?thesis by (simp add: t1 p1)
  next
    case False
    then have "1 \<le> int (length ks)" by (cases ks) simp_all
    with le have "gate_timer s \<noteq> 1" by simp
    with ih False show ?thesis by (auto simp: t1 p1 c1)
  qed
qed

lemmas build_defs =
  create_space_def create_gate_def create_counter_mechanism_def spawn_marble_def
  create_catch_funnel_def mc_create_boundaries_def sc_create_boundaries_def bits_pos_def
  add_body_def add_shape_def add_constraint_def set_angle_def new_body_def new_shape_def
  mechanism_polys_def Let_def upt_conv_Cons

lemma mc_init_gate:
  "gate_wf (mc_init E)" "gate_timer (mc_init E) = 0" "total_marbles_launched (mc_init E) = 0"
  by (simp_all add: mc_init_def gate_wf_def build_defs)

lemma sc_init_gate:
  "gate_wf (sc_init E)" "gate_timer (sc_init E) = 0" "total_marbles_launched (sc_init E) = 0"
  by (simp_all add: sc_init_def gate_wf_def build_defs)

lemma gate_wf_run: "gate_wf (run E fs s) = gate_wf s"
  by (rule gate_wf_layout [OF layout_run])

lemma launch_again:
  "launch (launch s) = (launch s)\<lparr>total_marbles_launched := total_marbles_launched s + 2\<rparr>"
  by (simp add: launch_def set_position_idem)

section \<open>Readout as a positional sum\<close>

lemma readout_loop_sum:
  "readout_loop k as acc = acc + (\<Sum>i<length as. val (degrees (as ! i)) * 2 ^ (k + i))"
proof (induction as arbitrary: k acc)
  case Nil
  show ?case by simp
next
  case (Cons a as)
  have "(\<Sum>i<length (a # as). val (degrees ((a # as) ! i)) * 2 ^ (k + i))
        = (\<Sum>i<Suc (length as). val (degrees ((a # as) ! i)) * 2 ^ (k + i))"
    by simp
  also have "\<dots> = val (degrees a) * 2 ^ k
                   + (\<Sum>i<length as. val (degrees (as ! i)) * 2 ^ (Suc k + i))"
    by (subst sum.lessThan_Suc_shift) simp
  finally have split:
    "(\<Sum>i<length (a # as). val (degrees ((a # as) ! i)) * 2 ^ (k + i))
     = val (degrees a) * 2 ^ k + (\<Sum>i<length as. val (degrees (as ! i)) * 2 ^ (Suc k + i))" .
  have "readout_loop k (a # as) acc = readout_loop (Suc k) as (acc + val (degrees a) * 2 ^ k)"
    by simp
  also have "\<dots> = acc + val (degrees a) * 2 ^ k
                   + (\<Sum>i<length as. val (degrees (as ! i)) * 2 ^ (Suc k + i))"
    by (rule Cons.IH)
  finally show ?case
    by (simp only: split add.assoc)
qed

text \<open>
  C1. For any sequence of mechanisms, the value \<^verbatim>\<open>binary_val\<close> that a frame of
  \<^verbatim>\<open>marble_counter.py\<close> computes is the sum of the classified bits times \<open>2 ^ i\<close>, with
  index 0 least significant; mechanisms reading 1, 0, 1, 1 give 13.
\<close>

theorem counter_readout_positional_sum:
  "readout_loop 0 as 0 = (\<Sum>i<length as. val (degrees (as ! i)) * 2 ^ i)
   \<and> binary_val s
       = (\<Sum>i<length (mechanisms s).
            val (degrees (angle (bodies (world s) ! (mechanisms s ! i)))) * 2 ^ i)
   \<and> (map (\<lambda>a. val (degrees a)) as = [1, 0, 1, 1] \<longrightarrow> readout_loop 0 as 0 = 13)"
proof (intro conjI impI)
  show g: "readout_loop 0 as 0 = (\<Sum>i<length as. val (degrees (as ! i)) * 2 ^ i)"
    by (simp add: readout_loop_sum)
  show "binary_val s
       = (\<Sum>i<length (mechanisms s).
            val (degrees (angle (bodies (world s) ! (mechanisms s ! i)))) * 2 ^ i)"
    by (simp add: binary_val_def mechanism_angles_def readout_loop_sum)
  assume m: "map (\<lambda>a. val (degrees a)) as = [1, 0, 1, 1]"
  then obtain a0 a1 a2 a3 where as: "as = [a0, a1, a2, a3]"
    by (auto simp: map_eq_Cons_conv)
  from m show "readout_loop 0 as 0 = 13"
    unfolding as by simp
qed

theorem counter_readout_positional_sum_witness:
  "map (\<lambda>a. val (degrees a)) [radians 35, - radians 35, radians 35, radians 35] = [1, 0, 1, 1]
   \<and> readout_loop 0 [radians 35, - radians 35, radians 35, radians 35] 0 = 13"
proof -
  have m: "map (\<lambda>a. val (degrees a)) [radians 35, - radians 35, radians 35, radians 35]
           = [1, 0, 1, 1]"
    by (simp add: val_def degrees_def radians_def)
  from counter_readout_positional_sum
         [of "[radians 35, - radians 35, radians 35, radians 35]", THEN conjunct2, THEN conjunct2]
       m
  show ?thesis by simp
qed

section \<open>Gate controller\<close>

text \<open>
  C2. In both programs the gate handle is always a kinematic body of the space. For such a
  state: a launch (SPACE) puts the gate at \<open>gate_open_pos\<close> and sets the timer to 15,
  whatever the state was; a second launch gives the same gate state again (only the count
  of launches differs); the tick of a pass decrements a positive timer by one and puts the
  gate back at \<open>gate_closed_pos\<close> exactly when the timer reaches zero; and over passes
  without a launch, counted from the pass of the launch, the gate stays open with the timer
  at 15 minus the number of passes until the fifteenth pass, after which the timer is zero
  and the gate is at \<open>gate_closed_pos\<close>.
\<close>

theorem gate_controller:
  "gate_wf (mc_main E fs) \<and> gate_wf (sc_main E fs)
   \<and> (gate_wf s \<longrightarrow>
        gate_position (launch s) = gate_open_pos s \<and> gate_timer (launch s) = 15
        \<and> launch (launch s)
            = (launch s)\<lparr>total_marbles_launched := total_marbles_launched s + 2\<rparr>
        \<and> gate_timer (gate_tick s) = (if gate_timer s > 0 then gate_timer s - 1 else gate_timer s)
        \<and> gate_position (gate_tick s)
            = (if gate_timer s = 1 then gate_closed_pos s else gate_position s)
        \<and> (list_all (\<lambda>evs. launches evs = 0) ks \<and> length ks \<le> 15 \<longrightarrow>
             gate_timer (fold (frame E) ks (launch s)) = 15 - int (length ks)
             \<and> gate_position (fold (frame E) ks (launch s))
                 = (if length ks = 15 then gate_closed_pos s else gate_open_pos s)))"
proof (intro conjI impI)
  show "gate_wf (mc_main E fs)"
    by (simp add: mc_main_def gate_wf_run mc_init_gate)
  show "gate_wf (sc_main E fs)"
    by (simp add: sc_main_def gate_wf_run sc_init_gate)
next
  assume wf: "gate_wf s"
  show "gate_position (launch s) = gate_open_pos s"
    by (rule gate_position_launch [OF wf])
  show "gate_timer (launch s) = 15"
    by (simp add: launch_def)
  show "launch (launch s)
        = (launch s)\<lparr>total_marbles_launched := total_marbles_launched s + 2\<rparr>"
    by (rule launch_again)
  show "gate_timer (gate_tick s) = (if gate_timer s > 0 then gate_timer s - 1 else gate_timer s)"
    by (rule gate_timer_tick)
  show "gate_position (gate_tick s)
        = (if gate_timer s = 1 then gate_closed_pos s else gate_position s)"
    by (rule gate_position_tick [OF wf])
next
  assume wf: "gate_wf s"
  assume ks: "list_all (\<lambda>evs. launches evs = 0) ks \<and> length ks \<le> 15"
  have l: "layout (launch s) = layout s"
    unfolding launch_def by (rule layout_handle_event)
  with gate_wf_layout [OF l] wf have wf1: "gate_wf (launch s)" by simp
  have t: "gate_timer (launch s) = 15" by (simp add: launch_def)
  have c: "gate_closed_pos (launch s) = gate_closed_pos s" by (simp add: launch_def)
  from ks have le: "int (length ks) \<le> gate_timer (launch s)" by (simp add: t)
  from ks have q: "list_all (\<lambda>evs. launches evs = 0) ks" by simp
  note cd = countdown [OF wf1 q le, of E]
  from cd show "gate_timer (fold (frame E) ks (launch s)) = 15 - int (length ks)"
    by (simp add: t)
  from cd show "gate_position (fold (frame E) ks (launch s))
                 = (if length ks = 15 then gate_closed_pos s else gate_open_pos s)"
    by (auto simp: t c gate_position_launch [OF wf])
qed

theorem gate_controller_witness:
  "gate_wf (mc_init (turning level))
   \<and> list_all (\<lambda>evs. launches evs = 0) (replicate 15 [OTHER_EVENT 0]) 
   \<and> length (replicate 15 [OTHER_EVENT 0]) \<le> 15
   \<and> gate_position (launch (mc_init (turning level))) = (840, 103)
   \<and> gate_timer (fold (frame (turning level)) (replicate 15 [OTHER_EVENT 0])
                    (launch (mc_init (turning level)))) = 0
   \<and> gate_position (fold (frame (turning level)) (replicate 15 [OTHER_EVENT 0])
                       (launch (mc_init (turning level)))) = (800, 103)"
proof -
  have wf: "gate_wf (mc_init (turning level))"
    by (rule mc_init_gate)
  have q: "list_all (\<lambda>evs. launches evs = 0) (replicate 15 [OTHER_EVENT 0])
           \<and> length (replicate 15 [OTHER_EVENT 0]) \<le> 15"
    by (simp add: launches_def list_all_length)
  have p: "gate_open_pos (mc_init (turning level)) = (840, 103)"
    "gate_closed_pos (mc_init (turning level)) = (800, 103)"
    by (simp_all add: mc_init_def build_defs vec_of_def mc_tube_x_def mc_WIDTH_def)
  from gate_controller [of "turning level" "[]" "mc_init (turning level)"
         "replicate 15 [OTHER_EVENT 0]"] wf q p
  show ?thesis by simp
qed

section \<open>Count of launches\<close>

text \<open>
  C9. \<^verbatim>\<open>total_marbles_launched\<close> grows by exactly one at each SPACE key press, also when
  the gate is already open, and no other event, tick or physics step changes it: a pass
  adds the number of SPACE presses among its events, so the count never decreases over a
  run; it starts at zero in both programs.
\<close>

theorem launch_count:
  "total_marbles_launched (handle_event e s)
     = total_marbles_launched s + (if e = KEYDOWN K_SPACE then 1 else 0)
   \<and> total_marbles_launched (launch (launch s)) = total_marbles_launched s + 2
   \<and> total_marbles_launched (gate_tick s) = total_marbles_launched s
   \<and> total_marbles_launched (physics E s) = total_marbles_launched s
   \<and> total_marbles_launched (frame E evs s) = total_marbles_launched s + int (launches evs)
   \<and> total_marbles_launched s \<le> total_marbles_launched (run E fs s)
   \<and> total_marbles_launched (mc_init E) = 0 \<and> total_marbles_launched (sc_init E) = 0"
proof (intro conjI)
  show "total_marbles_launched (handle_event e s)
     = total_marbles_launched s + (if e = KEYDOWN K_SPACE then 1 else 0)"
    by (cases "e = KEYDOWN K_SPACE") (simp_all add: handle_event_other)
  show "total_marbles_launched (launch (launch s)) = total_marbles_launched s + 2"
    by (simp add: launch_def)
  show t: "total_marbles_launched (gate_tick s) = total_marbles_launched s" for s
    by (simp add: gate_tick_def Let_def)
  show p: "total_marbles_launched (physics E s) = total_marbles_launched s" for s
    by (simp add: physics_def)
  show f: "total_marbles_launched (frame E evs s) = total_marbles_launched s + int (launches evs)"
    for evs s
    by (simp add: frame_def p t events_total)
  show "total_marbles_launched s \<le> total_marbles_launched (run E fs s)"
  proof (induction fs arbitrary: s)
    case Nil
    show ?case by simp
  next
    case (Cons evs fs)
    have "total_marbles_launched s \<le> total_marbles_launched (frame E evs s)"
      by (simp add: f)
    also have "\<dots> \<le> total_marbles_launched (run E fs (frame E evs s))"
      by (rule Cons.IH)
    finally show ?case by simp
  qed
  show "total_marbles_launched (mc_init E) = 0" by (rule mc_init_gate)
  show "total_marbles_launched (sc_init E) = 0" by (rule sc_init_gate)
qed

section \<open>Bounds of the gate timer\<close>

lemma timer_bounds_frame:
  "0 \<le> gate_timer s \<and> gate_timer s \<le> 15 \<Longrightarrow>
   0 \<le> gate_timer (frame E evs s) \<and> gate_timer (frame E evs s) \<le> 15"
  by (simp add: frame_def physics_def gate_timer_tick events_timer)

lemma timer_bounds_run:
  "0 \<le> gate_timer s \<and> gate_timer s \<le> 15 \<Longrightarrow>
   0 \<le> gate_timer (run E fs s) \<and> gate_timer (run E fs s) \<le> 15"
proof (induction fs arbitrary: s)
  case Nil
  then show ?case by simp
next
  case (Cons evs fs)
  from Cons.IH [OF timer_bounds_frame [OF Cons.prems]] Cons.prems
  show ?case by simp
qed

text \<open>
  C10. In every state that a run of either program reaches, the gate timer is between 0 and
  15: a launch sets it to 15, the tick decrements it only when it is positive, and nothing
  else writes it.
\<close>

theorem gate_timer_bounded:
  "0 \<le> gate_timer (mc_main E fs) \<and> gate_timer (mc_main E fs) \<le> 15
   \<and> 0 \<le> gate_timer (sc_main E fs) \<and> gate_timer (sc_main E fs) \<le> 15
   \<and> gate_timer (handle_event e s) = (if e = KEYDOWN K_SPACE then 15 else gate_timer s)
   \<and> gate_timer (gate_tick s) = (if 0 < gate_timer s then gate_timer s - 1 else gate_timer s)
   \<and> gate_timer (physics E s) = gate_timer s"
proof -
  have "0 \<le> gate_timer (mc_main E fs) \<and> gate_timer (mc_main E fs) \<le> 15"
    unfolding mc_main_def by (rule timer_bounds_run) (simp add: mc_init_gate)
  moreover have "0 \<le> gate_timer (sc_main E fs) \<and> gate_timer (sc_main E fs) \<le> 15"
    unfolding sc_main_def by (rule timer_bounds_run) (simp add: sc_init_gate)
  moreover have "gate_timer (handle_event e s) = (if e = KEYDOWN K_SPACE then 15 else gate_timer s)"
    by (cases "e = KEYDOWN K_SPACE") (simp_all add: handle_event_other)
  moreover have "gate_timer (physics E s) = gate_timer s"
    by (simp add: physics_def)
  ultimately show ?thesis
    by (simp add: gate_timer_tick)
qed

section \<open>Short runs with the two turning engines\<close>

lemma deg_rad [simp]: "degrees (radians x) = x" "degrees (- radians x) = - x" "degrees 0 = 0"
  by (simp_all add: degrees_def radians_def)

lemma rad_sign [simp]:
  "0 < radians 35" "- radians 35 < 0" "- radians 35 \<le> radians 35" "\<not> radians 35 < 0"
  "0 \<le> radians 35"
  by (simp_all add: radians_def not_less)

lemmas loop_defs =
  mc_main_def sc_main_def frame_def gate_tick_def physics_def space_step_def FPS_def
  turning_def limits_of_def mechanism_angles_def

lemma swing_run:
  "mechanism_angles (mc_main (turning swing) [[]]) = [radians 35, radians 35, radians 35, radians 35]"
  "mechanism_angles (mc_main (turning swing) [[], []]) = [0, 0, 0, 0]"
  by (simp_all add: loop_defs mc_init_def build_defs swing_def)

lemma level_run:
  "mechanism_angles (mc_main (turning level) [[]]) = [0, 0, 0, 0]"
  "mechanism_angles (mc_main (turning level) [[], []]) = [0, 0, 0, 0]"
  by (simp_all add: loop_defs mc_init_def build_defs level_def)

section \<open>Marbles stay in the space\<close>

lemma marble_count_cong:
  "shapes sp' = shapes sp \<Longrightarrow> length (bodies sp') = length (bodies sp) \<Longrightarrow>
   marble_count sp' = marble_count sp"
  by (simp add: marble_count_def is_marble_def [abs_def])

lemma marble_count_layout:
  assumes "layout s' = layout s"
  shows "marble_count (world s') = marble_count (world s)"
proof (rule marble_count_cong)
  from assms show "shapes (world s') = shapes (world s)"
    by (simp add: layout_def)
  from assms have "map body_type (bodies (world s')) = map body_type (bodies (world s))"
    by (simp add: layout_def)
  then show "length (bodies (world s')) = length (bodies (world s))"
    by (rule map_eq_imp_length_eq)
qed

lemma marble_count_spawn:
  "marble_count (fst (spawn_marble E pos sp)) = marble_count sp + 1"
proof -
  let ?n = "length (bodies sp)"
  let ?sp' = "fst (spawn_marble E pos sp)"
  obtain c where sh: "shapes ?sp' = shapes sp @ [c]" and cb: "shape_body c = BodyRef ?n"
    and cc: "is_circle (geometry c)"
    by (simp add: spawn_marble_def Let_def add_shape_def add_body_def new_shape_def
        marble_radius_def)
  have len: "length (bodies ?sp') = Suc ?n"
    by (simp add: spawn_marble_def Let_def add_shape_def add_body_def)
  have new: "is_marble ?sp' ?n"
    by (simp add: is_marble_def sh cb cc)
  have old: "is_marble ?sp' i = is_marble sp i" if "i < ?n" for i
    using that by (auto simp: is_marble_def sh cb)
  have "filter (is_marble ?sp') [0..<?n] = filter (is_marble sp) [0..<?n]"
    by (rule filter_cong) (simp_all add: old)
  then show ?thesis
    by (simp add: marble_count_def len new)
qed

lemma run_append: "run E (fs @ gs) s = run E gs (run E fs s)"
proof (induction fs arbitrary: s)
  case Nil
  show ?case by simp
next
  case (Cons evs fs)
  show ?case
  proof (cases "running s")
    case True
    then show ?thesis by (simp add: Cons.IH)
  next
    case False
    then show ?thesis by (cases gs) simp_all
  qed
qed

lemma mc_init_marbles: "marble_count (world (mc_init E)) = 10"
  by (simp add: marble_count_def is_marble_def mc_init_def build_defs)

lemma sc_init_marbles: "marble_count (world (sc_init E)) = 5"
  by (simp add: marble_count_def is_marble_def sc_init_def build_defs)

text \<open>
  C7. The number of marbles in the space never decreases over a run: \<^verbatim>\<open>spawn_marble\<close>
  adds exactly one, and neither the handling of an event, nor the gate tick, nor the
  physics step, nor therefore a whole pass of the loop changes the number; a longer run
  has at least as many marbles as any run it extends. The loop itself spawns none: the
  count stays at the 10 (one-bit program: 5) marbles seeded before the loop.
\<close>

theorem marbles_never_removed:
  "marble_count (fst (spawn_marble E pos sp)) = marble_count sp + 1
   \<and> marble_count (world (handle_event e s)) = marble_count (world s)
   \<and> marble_count (world (gate_tick s)) = marble_count (world s)
   \<and> marble_count (world (physics E s)) = marble_count (world s)
   \<and> marble_count (world (frame E evs s)) = marble_count (world s)
   \<and> marble_count (world (run E fs s)) \<le> marble_count (world (run E (fs @ gs) s))
   \<and> marble_count (world (mc_main E fs)) = 10
   \<and> marble_count (world (sc_main E fs)) = 5"
proof (intro conjI)
  show "marble_count (fst (spawn_marble E pos sp)) = marble_count sp + 1"
    by (rule marble_count_spawn)
  show "marble_count (world (handle_event e s)) = marble_count (world s)"
    by (rule marble_count_layout [OF layout_handle_event])
  show "marble_count (world (gate_tick s)) = marble_count (world s)"
    by (rule marble_count_layout [OF layout_gate_tick])
  show "marble_count (world (physics E s)) = marble_count (world s)"
    by (rule marble_count_layout [OF layout_physics])
  show "marble_count (world (frame E evs s)) = marble_count (world s)"
    by (rule marble_count_layout [OF layout_frame])
  have "marble_count (world (run E (fs @ gs) s)) = marble_count (world (run E fs s))"
    unfolding run_append by (rule marble_count_layout [OF layout_run])
  then show "marble_count (world (run E fs s)) \<le> marble_count (world (run E (fs @ gs) s))"
    by simp
  show "marble_count (world (mc_main E fs)) = 10"
    unfolding mc_main_def
    by (simp add: marble_count_layout [OF layout_run] mc_init_marbles)
  show "marble_count (world (sc_main E fs)) = 5"
    unfolding sc_main_def
    by (simp add: marble_count_layout [OF layout_run] sc_init_marbles)
qed

section \<open>Classification of an angle\<close>

lemma val_cases: "val a = (if 5 < a then 1 else 0)"
  by (simp add: val_def)

section \<open>Joints of a mechanism\<close>


lemma limited_layout:
  assumes "layout s' = layout s"
  shows "limited lo hi s' = limited lo hi s"
proof -
  from assms have m: "mechanisms s' = mechanisms s"
    and c: "constraints (world s') = constraints (world s)"
    and t: "map body_type (bodies (world s')) = map body_type (bodies (world s))"
    by (simp_all add: layout_def)
  from t have len: "length (bodies (world s')) = length (bodies (world s))"
    by (rule map_eq_imp_length_eq)
  have ty: "body_type (bodies (world s') ! i) = body_type (bodies (world s) ! i)"
    if "i < length (bodies (world s))" for i
  proof -
    from that len have "body_type (bodies (world s') ! i) = map body_type (bodies (world s')) ! i"
      by simp
    also from that have "\<dots> = body_type (bodies (world s) ! i)"
      by (simp add: t)
    finally show ?thesis .
  qed
  show ?thesis
    unfolding limited_def m
    by (rule list_all_cong) (auto simp: len limits_of_def c ty)
qed

lemma mc_init_limited:
  "limited (- radians 35) (radians 35) (mc_init E)"
  "mechanism_angles (mc_init E) = [- radians 35, - radians 35, - radians 35, - radians 35]"
  by (simp_all add: limited_def limits_of_def mechanism_angles_def mc_init_def build_defs)

lemma sc_init_limited:
  "limited (- radians 35) (radians 35) (sc_init E)"
  "mechanism_angles (sc_init E) = [- radians 35]"
  by (simp_all add: limited_def limits_of_def mechanism_angles_def sc_init_def build_defs)

lemma mc_init_joints:
  "mechanisms (mc_init E) = [1, 2, 3, 4]"
  "constraints (world (mc_init E))
   = [PivotJoint StaticBody (BodyRef 1) (820, 220),
      RotaryLimitJoint StaticBody (BodyRef 1) (- radians 35) (radians 35),
      PivotJoint StaticBody (BodyRef 2) (570, 450),
      RotaryLimitJoint StaticBody (BodyRef 2) (- radians 35) (radians 35),
      PivotJoint StaticBody (BodyRef 3) (320, 680),
      RotaryLimitJoint StaticBody (BodyRef 3) (- radians 35) (radians 35),
      PivotJoint StaticBody (BodyRef 4) (70, 910),
      RotaryLimitJoint StaticBody (BodyRef 4) (- radians 35) (radians 35)]"
  by (simp_all add: mc_init_def build_defs vec_of_def mc_WIDTH_def)

lemma sc_init_joints:
  "mechanisms (sc_init E) = [1]"
  "constraints (world (sc_init E))
   = [PivotJoint StaticBody (BodyRef 1) (400, 350),
      RotaryLimitJoint StaticBody (BodyRef 1) (- radians 35) (radians 35)]"
  by (simp_all add: sc_init_def build_defs vec_of_def sc_WIDTH_def sc_HEIGHT_def)

lemma run_joints:
  "mechanisms (run E fs s) = mechanisms s"
  "constraints (world (run E fs s)) = constraints (world s)"
  using layout_run [of E fs s] by (simp_all add: layout_def)

section \<open>No hysteresis\<close>

text \<open>
  C5, as stated, fails. Two runs of \<^verbatim>\<open>marble_counter.py\<close> of two passes each: in the
  first, every mechanism swings to +35 degrees (all bits read 1, the readout is 15) and
  then comes level; in the second, every mechanism comes level at once (readout 0) and
  stays. In the second pass both have all angles at 0 degrees, inside the band; a decoder
  with hysteresis would keep the bits of the first run at 1, but both readouts are 0.
\<close>

theorem hysteresis_counterexample:
  "binary_val (mc_main (turning swing) [[]]) = 15
   \<and> binary_val (mc_main (turning level) [[]]) = 0
   \<and> mechanism_angles (mc_main (turning swing) [[], []]) = [0, 0, 0, 0]
   \<and> mechanism_angles (mc_main (turning level) [[], []]) = [0, 0, 0, 0]
   \<and> binary_val (mc_main (turning swing) [[], []]) = 0
   \<and> binary_val (mc_main (turning level) [[], []]) = 0"
  by (simp add: binary_val_def swing_run level_run val_def)

lemma angles_sampled:
  assumes l: "limited lo hi s"
  shows "mechanism_angles (physics E s)
         = map (\<lambda>m. snd (solve E (world s) (1 / FPS) m)) (mechanisms s)"
proof -
  have "angle (bodies (world (physics E s)) ! m) = snd (solve E (world s) (1 / FPS) m)"
    if "m \<in> set (mechanisms s)" for m
  proof -
    from l that have r: "m < length (bodies (world s))"
      and d: "body_type (bodies (world s) ! m) = DYNAMIC"
      by (simp_all add: limited_def list_all_iff)
    show ?thesis
      by (simp add: physics_def space_step_nth [OF r] d)
  qed
  then show ?thesis
    by (simp add: mechanism_angles_def physics_def)
qed

lemma limited_run: "limited lo hi (run E fs s) = limited lo hi s"
  by (rule limited_layout [OF layout_run])

text \<open>
  C5, amended. In every pass of either program the angles that the readout sees are the
  ones the engine has just computed for the mechanisms in that pass, and the readout
  decodes them by the fixed threshold alone: the bit is 1 exactly when the angle of that
  pass is above +5 degrees, and the label of the one-bit program is a function of that
  angle. Two states with the same angles have the same readout, whatever came before:
  there is no hysteresis.
\<close>

theorem threshold_only:
  "mechanism_angles (frame E evs (mc_main E fs))
     = map (\<lambda>m. snd (solve E (world (gate_tick (fold handle_event evs (mc_main E fs))))
                      (1 / FPS) m))
         (mechanisms (mc_main E fs))
   \<and> mechanism_angles (frame E evs (sc_main E fs))
     = map (\<lambda>m. snd (solve E (world (gate_tick (fold handle_event evs (sc_main E fs))))
                      (1 / FPS) m))
         (mechanisms (sc_main E fs))
   \<and> binary_val s = (\<Sum>i<length (mechanism_angles s). val (degrees (mechanism_angles s ! i)) * 2 ^ i)
   \<and> val a = (if 5 < a then 1 else 0)
   \<and> parity s = parity_of (degrees (angle (bodies (world s) ! hd (mechanisms s))))
   \<and> parity_of a = (if 5 < a then ''PAR'' else if a < - 5 then ''IMPAR'' else ''...'')
   \<and> (mechanism_angles s' = mechanism_angles s \<longrightarrow> binary_val s' = binary_val s)
   \<and> (angle (bodies (world s') ! hd (mechanisms s')) = angle (bodies (world s) ! hd (mechanisms s))
        \<longrightarrow> parity s' = parity s)"
proof (intro conjI impI)
  let ?mc = "gate_tick (fold handle_event evs (mc_main E fs))"
  let ?sc = "gate_tick (fold handle_event evs (sc_main E fs))"
  have lm: "layout ?mc = layout (mc_main E fs)" and ls: "layout ?sc = layout (sc_main E fs)"
    by (simp_all add: layout_gate_tick layout_events)
  from limited_layout [OF lm] have "limited (- radians 35) (radians 35) ?mc"
    by (simp add: mc_main_def limited_run mc_init_limited)
  from angles_sampled [OF this, of E] lm
  show "mechanism_angles (frame E evs (mc_main E fs))
     = map (\<lambda>m. snd (solve E (world ?mc) (1 / FPS) m)) (mechanisms (mc_main E fs))"
    by (simp add: frame_def layout_def)
  from limited_layout [OF ls] have "limited (- radians 35) (radians 35) ?sc"
    by (simp add: sc_main_def limited_run sc_init_limited)
  from angles_sampled [OF this, of E] ls
  show "mechanism_angles (frame E evs (sc_main E fs))
     = map (\<lambda>m. snd (solve E (world ?sc) (1 / FPS) m)) (mechanisms (sc_main E fs))"
    by (simp add: frame_def layout_def)
  show "binary_val s
        = (\<Sum>i<length (mechanism_angles s). val (degrees (mechanism_angles s ! i)) * 2 ^ i)"
    by (simp add: binary_val_def readout_loop_sum)
  show "val a = (if 5 < a then 1 else 0)" by (rule val_cases)
  show "parity_of a = (if 5 < a then ''PAR'' else if a < - 5 then ''IMPAR'' else ''...'')"
    by (rule parity_of_def)
  show "parity s = parity_of (degrees (angle (bodies (world s) ! hd (mechanisms s))))"
    by (rule parity_def)
next
  assume "mechanism_angles s' = mechanism_angles s"
  then show "binary_val s' = binary_val s"
    by (simp add: binary_val_def)
next
  assume "angle (bodies (world s') ! hd (mechanisms s'))
          = angle (bodies (world s) ! hd (mechanisms s))"
  then show "parity s' = parity s"
    by (simp add: parity_def)
qed

theorem threshold_only_witness:
  "mechanism_angles (mc_main (turning swing) [[], []])
     = mechanism_angles (mc_main (turning level) [[], []])
   \<and> binary_val (mc_main (turning swing) [[], []]) = binary_val (mc_main (turning level) [[], []])"
proof -
  have e: "mechanism_angles (mc_main (turning swing) [[], []])
           = mechanism_angles (mc_main (turning level) [[], []])"
    by (simp add: swing_run level_run)
  from threshold_only [of "turning level" "[]" "[]" "mc_main (turning level) [[], []]" 0
         "mc_main (turning swing) [[], []]"] e
  show ?thesis by simp
qed

section \<open>What a pass samples\<close>


lemma mc_frame_angles:
  "mechanisms (mc_main E fs) = [1, 2, 3, 4]"
  "mechanism_angles (frame E evs (mc_main E fs))
   = map (\<lambda>m. snd (solve E (world (gate_tick (fold handle_event evs (mc_main E fs))))
                    (1 / FPS) m))
       [1, 2, 3, 4]"
proof -
  let ?s = "gate_tick (fold handle_event evs (mc_main E fs))"
  show m: "mechanisms (mc_main E fs) = [1, 2, 3, 4]"
    by (simp add: mc_main_def run_joints mc_init_joints)
  have l: "layout ?s = layout (mc_main E fs)"
    by (simp add: layout_gate_tick layout_events)
  from limited_layout [OF l] have "limited (- radians 35) (radians 35) ?s"
    by (simp add: mc_main_def limited_run mc_init_limited)
  from angles_sampled [OF this, of E] l m
  show "mechanism_angles (frame E evs (mc_main E fs))
        = map (\<lambda>m. snd (solve E (world ?s) (1 / FPS) m)) [1, 2, 3, 4]"
    by (simp add: frame_def layout_def)
qed

lemma sc_frame_angles:
  "mechanisms (sc_main E fs) = [1]"
  "mechanism_angles (frame E evs (sc_main E fs))
   = [snd (solve E (world (gate_tick (fold handle_event evs (sc_main E fs)))) (1 / FPS) 1)]"
proof -
  let ?s = "gate_tick (fold handle_event evs (sc_main E fs))"
  show m: "mechanisms (sc_main E fs) = [1]"
    by (simp add: sc_main_def run_joints sc_init_joints)
  have l: "layout ?s = layout (sc_main E fs)"
    by (simp add: layout_gate_tick layout_events)
  from limited_layout [OF l] have "limited (- radians 35) (radians 35) ?s"
    by (simp add: sc_main_def limited_run sc_init_limited)
  from angles_sampled [OF this, of E] l m
  show "mechanism_angles (frame E evs (sc_main E fs))
        = [snd (solve E (world ?s) (1 / FPS) 1)]"
    by (simp add: frame_def layout_def)
qed

lemma frame_mechanisms: "mechanisms (frame E evs s) = mechanisms s"
  using layout_frame [of E evs s] by (simp add: layout_def)

lemma parity_angles:
  "mechanisms s = [m] \<Longrightarrow> parity s = parity_of (degrees (hd (mechanism_angles s)))"
  by (simp add: parity_def mechanism_angles_def)


section \<open>Bit value in the band\<close>

text \<open>
  C3, as stated, fails. In \<^verbatim>\<open>marble_counter.py\<close>, after one pass in which every mechanism
  has come level, the four angles are 0 degrees, inside the band from -5 to +5. The
  specification's bit value is undefined there, but the bit \<^verbatim>\<open>val\<close> that the program
  classifies and shows is 0 for every mechanism, the same value as below -5 degrees.
\<close>

theorem deadband_counterexample:
  "mechanism_angles (mc_main (turning level) [[]]) = [0, 0, 0, 0]
   \<and> map (\<lambda>a. spec_bit_value (degrees a)) (mechanism_angles (mc_main (turning level) [[]]))
       = [None, None, None, None]
   \<and> map (\<lambda>a. val (degrees a)) (mechanism_angles (mc_main (turning level) [[]]))
       = [0, 0, 0, 0]
   \<and> Some (val (degrees 0)) \<noteq> spec_bit_value (degrees 0)"
  by (simp add: level_run spec_bit_value_def val_def)

text \<open>
  C3, amended. With the angle in degrees, the bit \<^verbatim>\<open>val\<close> of \<^verbatim>\<open>marble_counter.py\<close> is 1
  above +5 and 0 otherwise; it agrees with the specification's bit value exactly outside
  the band from -5 to +5, and is 0, not undefined, inside it. Only \<^verbatim>\<open>single_counter.py\<close>
  has a third class, as a label: \<^verbatim>\<open>PAR\<close> exactly where the bit is 1, \<^verbatim>\<open>IMPAR\<close> exactly
  below -5 (so before any launch), and \<^verbatim>\<open>...\<close> exactly in the band. In the integer readout
  a mechanism in the band adds nothing. Every pass classifies anew the angles that the
  engine has just computed: in the four-bit program the readout of a pass is the sum of
  the bits of bodies 1 to 4 with the weights 1, 2, 4 and 8, and in the one-bit program the
  label is that of body 1.
\<close>

theorem bit_classification:
  "val a = (if 5 < a then 1 else 0)
   \<and> (Some (val a) = spec_bit_value a \<longleftrightarrow> a < - 5 \<or> 5 < a)
   \<and> (- 5 \<le> a \<and> a \<le> 5 \<longrightarrow> val a = 0 \<and> spec_bit_value a = None)
   \<and> parity_of a = (if 5 < a then ''PAR'' else if a < - 5 then ''IMPAR'' else ''...'')
   \<and> (parity_of a = ''PAR'' \<longleftrightarrow> val a = 1)
   \<and> (parity_of a = ''IMPAR'' \<longleftrightarrow> a < - 5)
   \<and> (parity_of a = ''...'' \<longleftrightarrow> - 5 \<le> a \<and> a \<le> 5)
   \<and> (- 5 \<le> degrees b \<and> degrees b \<le> 5 \<longrightarrow>
        readout_loop i (b # bs) acc = readout_loop (i + 1) bs acc)
   \<and> mechanisms (mc_main E fs) = [1, 2, 3, 4]
   \<and> binary_val (frame E evs (mc_main E fs))
       = val (degrees (snd (solve E (world (gate_tick (fold handle_event evs (mc_main E fs))))
                                 (1 / FPS) 1)))
         + 2 * val (degrees (snd (solve E (world (gate_tick (fold handle_event evs (mc_main E fs))))
                                 (1 / FPS) 2)))
         + 4 * val (degrees (snd (solve E (world (gate_tick (fold handle_event evs (mc_main E fs))))
                                 (1 / FPS) 3)))
         + 8 * val (degrees (snd (solve E (world (gate_tick (fold handle_event evs (mc_main E fs))))
                                 (1 / FPS) 4)))
   \<and> mechanisms (sc_main E fs) = [1]
   \<and> parity (frame E evs (sc_main E fs))
       = parity_of (degrees (snd (solve E (world (gate_tick (fold handle_event evs (sc_main E fs))))
                                       (1 / FPS) 1)))
   \<and> parity (sc_init E) = ''IMPAR'' \<and> binary_val (mc_init E) = 0"
proof (intro conjI impI)
  show "val a = (if 5 < a then 1 else 0)" by (rule val_cases)
  show "Some (val a) = spec_bit_value a \<longleftrightarrow> a < - 5 \<or> 5 < a"
    by (auto simp: val_def spec_bit_value_def)
  show "parity_of a = (if 5 < a then ''PAR'' else if a < - 5 then ''IMPAR'' else ''...'')"
    by (rule parity_of_def)
  show "parity_of a = ''PAR'' \<longleftrightarrow> val a = 1" by (simp add: parity_of_def val_def)
  show "parity_of a = ''IMPAR'' \<longleftrightarrow> a < - 5" by (auto simp: parity_of_def)
  show "parity_of a = ''...'' \<longleftrightarrow> - 5 \<le> a \<and> a \<le> 5" by (auto simp: parity_of_def)
  show "mechanisms (mc_main E fs) = [1, 2, 3, 4]" by (rule mc_frame_angles)
  show "mechanisms (sc_main E fs) = [1]" by (rule sc_frame_angles)
  show "binary_val (frame E evs (mc_main E fs))
       = val (degrees (snd (solve E (world (gate_tick (fold handle_event evs (mc_main E fs))))
                                 (1 / FPS) 1)))
         + 2 * val (degrees (snd (solve E (world (gate_tick (fold handle_event evs (mc_main E fs))))
                                 (1 / FPS) 2)))
         + 4 * val (degrees (snd (solve E (world (gate_tick (fold handle_event evs (mc_main E fs))))
                                 (1 / FPS) 3)))
         + 8 * val (degrees (snd (solve E (world (gate_tick (fold handle_event evs (mc_main E fs))))
                                 (1 / FPS) 4)))"
    by (simp add: binary_val_def mc_frame_angles)
  have "mechanisms (frame E evs (sc_main E fs)) = [1]"
    by (simp add: frame_mechanisms sc_frame_angles)
  from parity_angles [OF this]
  show "parity (frame E evs (sc_main E fs))
       = parity_of (degrees (snd (solve E (world (gate_tick (fold handle_event evs (sc_main E fs))))
                                       (1 / FPS) 1)))"
    by (simp add: sc_frame_angles)
  have "mechanisms (sc_init E) = [1]" by (rule sc_init_joints)
  from parity_angles [OF this] show "parity (sc_init E) = ''IMPAR''"
    by (simp add: sc_init_limited parity_of_def)
  show "binary_val (mc_init E) = 0"
    by (simp add: binary_val_def mc_init_limited val_def)
next
  assume "- 5 \<le> a \<and> a \<le> 5"
  then show "val a = 0" "spec_bit_value a = None"
    by (simp_all add: val_def spec_bit_value_def)
next
  assume "- 5 \<le> degrees b \<and> degrees b \<le> 5"
  then show "readout_loop i (b # bs) acc = readout_loop (i + 1) bs acc"
    by (simp add: val_def)
qed

theorem bit_classification_witness:
  "- 5 \<le> (0 :: real) \<and> (0 :: real) \<le> 5 \<and> val 0 = 0 \<and> spec_bit_value 0 = None
   \<and> - 5 \<le> degrees 0 \<and> degrees 0 \<le> 5
   \<and> readout_loop 0 [0, radians 35] 0 = readout_loop 1 [radians 35] 0
   \<and> readout_loop 0 [0, radians 35] 0 = 2"
proof -
  have d: "- 5 \<le> degrees 0 \<and> degrees 0 \<le> 5" by simp
  from bit_classification [of 0 0 0 "[radians 35]" 0] d
  show ?thesis by (simp add: val_def)
qed

section \<open>Joints and angle of a mechanism\<close>






section \<open>Centre of gravity of a mechanism\<close>

lemmas poly_defs =
  compound_centroid_def centroid_def area2_def edges_def cross_def
  mechanism_polys_def h_bar_pts_def v_bar_pts_def tip_pts_def slope_l_pts_def slope_r_pts_def

lemma mechanism_centroid: "compound_centroid mechanism_polys = (0, - (110039 / 4737))"
  by (simp add: poly_defs)

lemma mechanism_body:
  "bodies (fst (create_counter_mechanism E pos sp)) ! snd (create_counter_mechanism E pos sp)
   = \<lparr>body_type = DYNAMIC, mass = 2,
      moment = moment_for_poly E 2 h_bar_pts + moment_for_poly E 2 v_bar_pts
               + moment_for_poly E 2 tip_pts,
      position = pos, angle = 0, center_of_gravity = (0, - 20)\<rparr>"
  by (simp add: build_defs)

text \<open>
  C6, as stated, fails. Gravity is \<open>(0, 900)\<close>: down is the direction of growing \<open>y\<close>.
  For the mechanism made at the origin of an empty space, the centre of gravity is not
  below the pivot (the position of the body), and neither is the apex of the tail tip: the
  tail points up, so no offset is both downward and toward the tail tip.
\<close>

theorem center_of_gravity_counterexample:
  "\<not> below (gravity create_space)
       (local_to_world
          (bodies (fst (create_counter_mechanism (turning level) (0, 0) create_space))
           ! snd (create_counter_mechanism (turning level) (0, 0) create_space))
          (center_of_gravity
             (bodies (fst (create_counter_mechanism (turning level) (0, 0) create_space))
              ! snd (create_counter_mechanism (turning level) (0, 0) create_space))))
       (position
          (bodies (fst (create_counter_mechanism (turning level) (0, 0) create_space))
           ! snd (create_counter_mechanism (turning level) (0, 0) create_space)))
   \<and> \<not> below (gravity create_space)
         (local_to_world
            (bodies (fst (create_counter_mechanism (turning level) (0, 0) create_space))
             ! snd (create_counter_mechanism (turning level) (0, 0) create_space))
            (tip_pts ! 2))
         (position
            (bodies (fst (create_counter_mechanism (turning level) (0, 0) create_space))
             ! snd (create_counter_mechanism (turning level) (0, 0) create_space)))"
  by (simp add: mechanism_body below_def local_to_world_def create_space_def GRAVITY_def
      tip_pts_def)

text \<open>
  C6, amended. The centre of gravity of every body made by \<^verbatim>\<open>create_counter_mechanism\<close>
  is set to \<open>(0, - 20)\<close> in the frame of the body: on the axis of the tail, 4/17 of the way
  from the pivot to the apex of the tail tip. The pivot is below it at every angle within a
  quarter turn, so within the limits of 35 degrees: the body is top-heavy. It is not the
  centroid of the five polygons of the body weighted by area, which is further along the
  tail at \<open>(0, - 110039 / 4737)\<close>.
\<close>

theorem center_of_gravity_offset:
  "center_of_gravity (bodies (fst (create_counter_mechanism E pos sp))
                      ! snd (create_counter_mechanism E pos sp)) = (0, - 20)
   \<and> tip_pts ! 2 = (0, - 85)
   \<and> (0, - 20) = (4 / 17 * fst (tip_pts ! 2), 4 / 17 * snd (tip_pts ! 2))
   \<and> (- (pi / 2) < a \<and> a < pi / 2 \<longrightarrow>
        below (gravity create_space)
          (position ((bodies (fst (create_counter_mechanism E pos sp))
                      ! snd (create_counter_mechanism E pos sp))\<lparr>angle := a\<rparr>))
          (local_to_world
             ((bodies (fst (create_counter_mechanism E pos sp))
               ! snd (create_counter_mechanism E pos sp))\<lparr>angle := a\<rparr>)
             (0, - 20)))
   \<and> compound_centroid mechanism_polys = (0, - (110039 / 4737))
   \<and> center_of_gravity (bodies (fst (create_counter_mechanism E pos sp))
                        ! snd (create_counter_mechanism E pos sp))
       \<noteq> compound_centroid mechanism_polys"
proof (intro conjI impI)
  show "center_of_gravity (bodies (fst (create_counter_mechanism E pos sp))
                      ! snd (create_counter_mechanism E pos sp)) = (0, - 20)"
    by (simp add: mechanism_body)
  show "tip_pts ! 2 = (0, - 85)" by (simp add: tip_pts_def)
  show "(0, - 20) = (4 / 17 * fst (tip_pts ! 2), 4 / 17 * snd (tip_pts ! 2))"
    by (simp add: tip_pts_def)
  show "compound_centroid mechanism_polys = (0, - (110039 / 4737))"
    by (rule mechanism_centroid)
  show "center_of_gravity (bodies (fst (create_counter_mechanism E pos sp))
                        ! snd (create_counter_mechanism E pos sp))
       \<noteq> compound_centroid mechanism_polys"
    by (simp add: mechanism_body mechanism_centroid)
next
  assume "- (pi / 2) < a \<and> a < pi / 2"
  then have "0 < cos a" by (simp add: cos_gt_zero_pi)
  then show "below (gravity create_space)
          (position ((bodies (fst (create_counter_mechanism E pos sp))
                      ! snd (create_counter_mechanism E pos sp))\<lparr>angle := a\<rparr>))
          (local_to_world
             ((bodies (fst (create_counter_mechanism E pos sp))
               ! snd (create_counter_mechanism E pos sp))\<lparr>angle := a\<rparr>)
             (0, - 20))"
    by (simp add: mechanism_body below_def local_to_world_def create_space_def GRAVITY_def)
qed

theorem center_of_gravity_offset_witness:
  "- (pi / 2) < radians 35 \<and> radians 35 < pi / 2
   \<and> below (0, 900) (820, 220) (820 + 20 * sin (radians 35), 220 - 20 * cos (radians 35))"
proof -
  have r: "- (pi / 2) < radians 35 \<and> radians 35 < pi / 2"
    by (simp add: radians_def)
  from center_of_gravity_offset [of "turning level" "(820, 220)" create_space "radians 35"] r
  show ?thesis
    by (simp add: mechanism_body local_to_world_def create_space_def GRAVITY_def)
qed

section \<open>Initial configuration of the four-bit counter\<close>

lemma mc_init_marble_positions:
  "marble_positions (mc_init E)
   = [(800, 80), (800, 54), (800, 28), (800, 2), (800, - 24), (800, - 50), (800, - 76),
      (800, - 102), (800, - 128), (800, - 154)]"
  by (simp add: marble_positions_def mc_init_def build_defs vec_of_def mc_tube_x_def mc_WIDTH_def)

lemma mc_init_gate_position: "gate_position (mc_init E) = (800, 103)"
  by (simp add: gate_position_def mc_init_def build_defs vec_of_def mc_tube_x_def mc_WIDTH_def)

lemma mc_init_gravity: "gravity (world (mc_init E)) = (0, 900)"
  by (simp add: mc_init_def build_defs GRAVITY_def)

lemmas tube_defs = mc_in_tube_def mc_tube_x_def mc_tube_width_def mc_tube_height_def mc_WIDTH_def

lemma mc_init_walls:
  "map geometry (take 3 (shapes (world (mc_init E))))
   = [Segment (0, 990) (1000, 990) 10, Segment (784, 0) (784, 100) 4,
      Segment (816, 0) (816, 100) 4]"
  by (simp add: mc_init_def build_defs vec_of_def mc_tube_x_def mc_WIDTH_def mc_HEIGHT_def
      mc_tube_width_def mc_tube_height_def)

text \<open>
  C8, as stated, fails. The tube walls span the heights 0 to 100; the last marble is
  spawned at height -154, above the mouth of the tube, and only four of the ten spawn
  positions are inside the tube.
\<close>

theorem seeded_in_tube_counterexample:
  "marble_positions (mc_init (turning level)) ! 9 = (800, - 154)
   \<and> \<not> mc_in_tube (marble_positions (mc_init (turning level)) ! 9)
   \<and> length (filter mc_in_tube (marble_positions (mc_init (turning level)))) = 4"
  by (simp add: mc_init_marble_positions tube_defs)

text \<open>
  C8, amended. When the loop of \<^verbatim>\<open>marble_counter.py\<close> starts, every mechanism is at -35
  degrees, and the space holds exactly 10 marbles, spawned in one column on the centre
  line of the tube, all above the gate, each 26 above the one before, which is more than
  the marble diameter of 24. The four lowest are inside the tube; the six others are above
  its mouth. The column is midway between the two walls of the tube, which stand at 784
  and 816 over the heights 0 to 100.
\<close>

theorem initial_configuration:
  "map degrees (mechanism_angles (mc_init E)) = [- 35, - 35, - 35, - 35]
   \<and> marble_count (world (mc_init E)) = 10
   \<and> length (marbles (mc_init E)) = 10
   \<and> marble_positions (mc_init E) = map (\<lambda>i. (800, 80 - 26 * real i)) [0..<10]
   \<and> gate_position (mc_init E) = (800, 103)
   \<and> list_all (\<lambda>p. fst p = fst (gate_position (mc_init E))
                   \<and> below (gravity (world (mc_init E))) (gate_position (mc_init E)) p)
        (marble_positions (mc_init E))
   \<and> map2 (\<lambda>p q. snd p - snd q) (marble_positions (mc_init E)) (tl (marble_positions (mc_init E)))
       = replicate 9 26
   \<and> 2 * marble_radius < 26
   \<and> filter mc_in_tube (marble_positions (mc_init E)) = take 4 (marble_positions (mc_init E))
   \<and> map geometry (take 3 (shapes (world (mc_init E))))
       = [Segment (0, 990) (1000, 990) 10, Segment (784, 0) (784, 100) 4,
          Segment (816, 0) (816, 100) 4]
   \<and> fst (gate_position (mc_init E)) = (784 + 816) / 2"
proof (intro conjI)
  show "map geometry (take 3 (shapes (world (mc_init E))))
       = [Segment (0, 990) (1000, 990) 10, Segment (784, 0) (784, 100) 4,
          Segment (816, 0) (816, 100) 4]"
    by (rule mc_init_walls)
  show "fst (gate_position (mc_init E)) = (784 + 816) / 2"
    by (simp add: mc_init_gate_position)
  show "map degrees (mechanism_angles (mc_init E)) = [- 35, - 35, - 35, - 35]"
    by (simp add: mc_init_limited)
  show "marble_count (world (mc_init E)) = 10" by (rule mc_init_marbles)
  show "length (marbles (mc_init E)) = 10"
    using arg_cong [OF mc_init_marble_positions [of E], of length]
    by (simp add: marble_positions_def)
  show "marble_positions (mc_init E) = map (\<lambda>i. (800, 80 - 26 * real i)) [0..<10]"
    by (simp add: mc_init_marble_positions upt_conv_Cons)
  show "gate_position (mc_init E) = (800, 103)" by (rule mc_init_gate_position)
  show "list_all (\<lambda>p. fst p = fst (gate_position (mc_init E))
                   \<and> below (gravity (world (mc_init E))) (gate_position (mc_init E)) p)
        (marble_positions (mc_init E))"
    by (simp add: mc_init_marble_positions mc_init_gate_position mc_init_gravity below_def)
  show "map2 (\<lambda>p q. snd p - snd q) (marble_positions (mc_init E)) (tl (marble_positions (mc_init E)))
       = replicate 9 26"
    by (simp add: mc_init_marble_positions numeral_eq_Suc)
  show "2 * marble_radius < 26" by (simp add: marble_radius_def)
  show "filter mc_in_tube (marble_positions (mc_init E)) = take 4 (marble_positions (mc_init E))"
    by (simp add: mc_init_marble_positions tube_defs)
qed

end
